theory Spec2Isabelle
  imports
    Complex_Main
    "HOL-Library.Char_ord"
    "HOL-Library.List_Lexorder"
    "HOL-Library.Product_Lexorder"
    "HOL-Library.Multiset"
    "HOL-Library.Sublist"
begin

section \<open>The data model of AQI.py\<close>

text \<open>
  The script works on one pandas DataFrame, \<^verbatim>\<open>df\<close>, read from the uploaded CSV file,
  and on \<^verbatim>\<open>filtered_df\<close>, derived from it. A frame is modelled by its column labels,
  the dtype pandas keeps for each column, and its rows in order (the row index is not
  modelled: nothing in the script reads it).

  A cell is a missing value (\<^verbatim>\<open>NaN\<close>), an integer (a cell of an int64 column), a
  float or a text. A float holds the decimal value written in the file, as an exact
  rational: the rounding error of float64 is not modelled. Texts are lists of code
  points below 256, ordered as Python orders \<^verbatim>\<open>str\<close>, code point by code point.
\<close>

datatype cell = NaN | IntC int | FloatC rat | StrC string

datatype dtype = Int64 | Float64 | Object

record frame =
  columns :: "string list"
  dtypes :: "dtype list"
  rows :: "cell list list"

text \<open>
  What stops the script: an exception (Streamlit shows it and ends the run), or the
  \<^verbatim>\<open>st.stop()\<close> of the required-columns check, after \<^verbatim>\<open>st.write(missing)\<close> has shown the
  list.
\<close>

datatype halt =
    KeyError string
  | ValueError
  | TypeError
  | MissingColumns "string list"

subsection \<open>Column access\<close>

text \<open>\<^verbatim>\<open>col in df.columns\<close> and the position of a label.\<close>

fun index_of :: "string \<Rightarrow> string list \<Rightarrow> nat" where
  "index_of c [] = 0"
| "index_of c (x # xs) = (if x = c then 0 else Suc (index_of c xs))"

text \<open>A row's cell at a position; a row too short for the frame reads as missing.\<close>

definition cell_at :: "nat \<Rightarrow> cell list \<Rightarrow> cell" where
  "cell_at i r = (if i < length r then r ! i else NaN)"

text \<open>\<^verbatim>\<open>df[c]\<close>: the column as a list of cells, \<^verbatim>\<open>KeyError\<close> when the label is absent.\<close>

definition column_cells :: "string \<Rightarrow> frame \<Rightarrow> cell list" where
  "column_cells c d = map (cell_at (index_of c (columns d))) (rows d)"

definition getcol :: "frame \<Rightarrow> string \<Rightarrow> halt + cell list" where
  "getcol d c = (if c \<in> set (columns d) then Inr (column_cells c d) else Inl (KeyError c))"

subsection \<open>Text helpers of Python\<close>

text \<open>
  \<^verbatim>\<open>str.isspace\<close> on the code points below 256: U+0009 to U+000D, U+001C to U+0020,
  U+0085 and U+00A0.
\<close>

definition isspace :: "char \<Rightarrow> bool" where
  "isspace ch =
     (let n = (of_char ch :: nat)
      in (9 \<le> n \<and> n \<le> 13) \<or> (28 \<le> n \<and> n \<le> 32) \<or> n = 133 \<or> n = 160)"

definition strip :: "string \<Rightarrow> string" where
  "strip s = rev (dropWhile isspace (rev (dropWhile isspace s)))"

definition digit_char :: "nat \<Rightarrow> char" where
  "digit_char n = char_of (48 + n)"

fun digits :: "nat \<Rightarrow> string" where
  "digits n = (if n < 10 then [digit_char n] else digits (n div 10) @ [digit_char (n mod 10)])"

definition str_int :: "int \<Rightarrow> string" where
  "str_int i = (if i < 0 then CHR ''-'' # digits (nat (- i)) else digits (nat i))"

text \<open>
  \<^verbatim>\<open>str\<close> of a float whose decimal value has at most 15 significant digits, the
  floats that Python writes back digit for digit. Zero and the values from 0.0001 up
  to 10 ^ 16 are written in positional notation, with \<^verbatim>\<open>.0\<close> after a whole number
  (\<^verbatim>\<open>7.0\<close>, \<^verbatim>\<open>12.5\<close>, \<^verbatim>\<open>0.0001\<close>); the others with an exponent of two digits or
  more (\<^verbatim>\<open>1e+16\<close>, \<^verbatim>\<open>1.5e-07\<close>).
\<close>

fun frac_digits :: "nat \<Rightarrow> rat \<Rightarrow> string" where
  "frac_digits 0 x = []"
| "frac_digits (Suc k) x =
     (if x = 0 then []
      else digit_char (nat \<lfloor>x * 10\<rfloor>) # frac_digits k (x * 10 - of_int \<lfloor>x * 10\<rfloor>))"

text \<open>
  The number of places by which a value below 1 is shifted to reach 1; no float64 other
  than zero needs 400 of them.
\<close>

fun lead_zeros :: "nat \<Rightarrow> rat \<Rightarrow> nat" where
  "lead_zeros 0 a = 0"
| "lead_zeros (Suc k) a = (if 1 \<le> a then 0 else Suc (lead_zeros k (a * 10)))"

definition float_str :: "rat \<Rightarrow> string" where
  "float_str x =
     (let a = \<bar>x\<bar>; sign = (if x < 0 then [CHR ''-''] else [])
      in if a = 0 \<or> (1 / 10 ^ 4 \<le> a \<and> a < 10 ^ 16)
         then sign @ digits (nat \<lfloor>a\<rfloor>) @ [CHR ''.''] @
              (if a = of_int \<lfloor>a\<rfloor> then [CHR ''0''] else frac_digits 20 (a - of_int \<lfloor>a\<rfloor>))
         else
           (let n = (if 1 \<le> a then length (digits (nat \<lfloor>a\<rfloor>)) - 1 else lead_zeros 400 a);
                m = (if 1 \<le> a then a / 10 ^ n else a * 10 ^ n)
            in sign @ digits (nat \<lfloor>m\<rfloor>) @
               (if m = of_int \<lfloor>m\<rfloor> then [] else CHR ''.'' # frac_digits 20 (m - of_int \<lfloor>m\<rfloor>)) @
               [CHR ''e'', if 1 \<le> a then CHR ''+'' else CHR ''-''] @
               (if n < 10 then [CHR ''0''] else []) @ digits n))"

text \<open>\<^verbatim>\<open>astype(str)\<close> on one cell: \<^verbatim>\<open>str(np.nan)\<close> is the text \<^verbatim>\<open>nan\<close>.\<close>

fun astype_str :: "cell \<Rightarrow> string" where
  "astype_str NaN = ''nan''"
| "astype_str (IntC i) = str_int i"
| "astype_str (FloatC x) = float_str x"
| "astype_str (StrC s) = s"

declare digits.simps [simp del]

text \<open>Sequencing of steps that may stop the script.\<close>

definition and_then :: "halt + 'a \<Rightarrow> ('a \<Rightarrow> halt + 'b) \<Rightarrow> halt + 'b" where
  "and_then m f = (case m of Inl e \<Rightarrow> Inl e | Inr x \<Rightarrow> f x)"

section \<open>Loading and the required-columns check (lines 32 to 53)\<close>

text \<open>
  The input of the model is the frame \<^verbatim>\<open>pd.read_csv\<close> returns. Its labels are
  taken to stay distinct under \<^verbatim>\<open>df.columns.str.strip()\<close> (line 33).
\<close>

definition strip_columns :: "frame \<Rightarrow> frame" where
  "strip_columns d = d\<lparr>columns := map strip (columns d)\<rparr>"

text \<open>
  Lines 36 and 37, \<^verbatim>\<open>df[c] = df[c].astype(str).str.strip()\<close>: reading \<^verbatim>\<open>df[c]\<close>
  raises \<^verbatim>\<open>KeyError\<close> when the label is absent.
\<close>

definition clean_column :: "string \<Rightarrow> frame \<Rightarrow> halt + frame" where
  "clean_column c d =
     (if c \<in> set (columns d)
      then (let i = index_of c (columns d)
            in Inr (d\<lparr>dtypes := (dtypes d)[i := Object],
                      rows := map (\<lambda>r. r[i := StrC (strip (astype_str (cell_at i r)))])
                                  (rows d)\<rparr>))
      else Inl (KeyError c))"

definition required_columns :: "string list" where
  "required_columns =
     [''Country'', ''City'', ''AQI Value'', ''AQI Category'',
      ''CO AQI Value'', ''Ozone AQI Value'',
      ''NO2 AQI Value'', ''PM2.5 AQI Value'',
      ''lat'', ''lng'']"

text \<open>Line 49.\<close>

definition missing :: "frame \<Rightarrow> string list" where
  "missing d = filter (\<lambda>col. col \<notin> set (columns d)) required_columns"

text \<open>Lines 32 to 53, in the order of the script: the two columns are cleaned first.\<close>

definition load :: "frame \<Rightarrow> halt + frame" where
  "load raw =
     and_then (clean_column ''Country'' (strip_columns raw)) (\<lambda>d1.
     and_then (clean_column ''City'' d1) (\<lambda>d2.
     if missing d2 \<noteq> [] then Inl (MissingColumns (missing d2)) else Inr d2))"

section \<open>Sidebar filters (lines 66 to 80)\<close>

text \<open>
  \<^verbatim>\<open>["All"] + sorted(df[c].dropna().unique().tolist())\<close>. The cleaned columns hold
  texts only, on which \<^const>\<open>astype_str\<close> is the identity.
\<close>

definition dropna :: "cell list \<Rightarrow> cell list" where
  "dropna xs = filter (\<lambda>x. x \<noteq> NaN) xs"

definition options :: "string \<Rightarrow> frame \<Rightarrow> halt + string list" where
  "options c d =
     and_then (getcol d c) (\<lambda>col.
     Inr (''All'' # sort (remdups (map astype_str (dropna col)))))"

text \<open>\<^verbatim>\<open>d[d[c] == v]\<close> for a text \<^verbatim>\<open>v\<close>: the rows whose cell equals it, in order.\<close>

definition select_eq :: "string \<Rightarrow> string \<Rightarrow> frame \<Rightarrow> halt + frame" where
  "select_eq c v d =
     (if c \<in> set (columns d)
      then Inr (d\<lparr>rows := filter (\<lambda>r. cell_at (index_of c (columns d)) r = StrC v) (rows d)\<rparr>)
      else Inl (KeyError c))"

text \<open>Lines 76 to 80.\<close>

definition apply_filters :: "frame \<Rightarrow> string \<Rightarrow> string \<Rightarrow> halt + frame" where
  "apply_filters d country city =
     and_then (if country \<noteq> ''All'' then select_eq ''Country'' country d else Inr d) (\<lambda>f1.
     if city \<noteq> ''All'' then select_eq ''City'' city f1 else Inr f1)"

text \<open>
  The two variables of lines 76 to 80. The assignments bind \<^verbatim>\<open>filtered_df\<close> only;
  a boolean mask builds a new frame.
\<close>

record session =
  df :: frame
  filtered_df :: frame

definition filter_step :: "string \<Rightarrow> string \<Rightarrow> session \<Rightarrow> halt + session" where
  "filter_step country city s =
     and_then (apply_filters (df s) country city) (\<lambda>f. Inr (s\<lparr>filtered_df := f\<rparr>))"

text \<open>The filter as the specification words it: one pass with the conjunction.\<close>

definition spec_keeps :: "frame \<Rightarrow> string \<Rightarrow> string \<Rightarrow> cell list \<Rightarrow> bool" where
  "spec_keeps d country city r =
     ((country = ''All'' \<or> cell_at (index_of ''Country'' (columns d)) r = StrC country) \<and>
      (city = ''All'' \<or> cell_at (index_of ''City'' (columns d)) r = StrC city))"

section \<open>KPI metrics (lines 87 to 91)\<close>

text \<open>
  A float result of pandas: \<^verbatim>\<open>nan\<close> or a value. Values are exact rationals: the mean
  and its rounding are computed without the rounding error of float64.
\<close>

datatype pyfloat = Fnan | Fval rat

fun is_text :: "cell \<Rightarrow> bool" where
  "is_text (StrC s) = True"
| "is_text c = False"

text \<open>The numbers of a column, missing values left out.\<close>

fun numbers :: "cell list \<Rightarrow> rat list" where
  "numbers [] = []"
| "numbers (IntC n # xs) = of_int n # numbers xs"
| "numbers (FloatC x # xs) = x # numbers xs"
| "numbers (c # xs) = numbers xs"

text \<open>
  \<^verbatim>\<open>Series.mean()\<close>, which skips missing values: \<^verbatim>\<open>nan\<close> when no value is left,
  \<^verbatim>\<open>TypeError\<close> on a column of texts.
\<close>

definition series_mean :: "cell list \<Rightarrow> halt + pyfloat" where
  "series_mean xs =
     (if list_ex is_text xs then Inl TypeError
      else if numbers xs = [] then Inr Fnan
      else Inr (Fval (sum_list (numbers xs) / of_nat (length (numbers xs)))))"

text \<open>\<^verbatim>\<open>Series.max()\<close>, skipping missing values as well.\<close>

definition series_max :: "cell list \<Rightarrow> halt + pyfloat" where
  "series_max xs =
     (if list_ex is_text xs then Inl TypeError
      else if numbers xs = [] then Inr Fnan
      else Inr (Fval (fold max (tl (numbers xs)) (hd (numbers xs)))))"

text \<open>Rounding to the nearest integer, a tie going to the even one.\<close>

definition round_half_even :: "rat \<Rightarrow> int" where
  "round_half_even x =
     (let f = \<lfloor>x\<rfloor>; d = x - of_int f
      in if d < 1 / 2 then f
         else if 1 / 2 < d then f + 1
         else if even f then f else f + 1)"

text \<open>\<^verbatim>\<open>round(x, 1)\<close>; \<^verbatim>\<open>round(nan, 1)\<close> is \<^verbatim>\<open>nan\<close>.\<close>

fun round1 :: "pyfloat \<Rightarrow> pyfloat" where
  "round1 Fnan = Fnan"
| "round1 (Fval x) = Fval (of_int (round_half_even (x * 10)) / 10)"

text \<open>
  \<^verbatim>\<open>int(x)\<close> truncates towards zero; \<^verbatim>\<open>int(nan)\<close> raises
  \<^verbatim>\<open>ValueError: cannot convert float NaN to integer\<close>.
\<close>

fun py_int :: "pyfloat \<Rightarrow> halt + int" where
  "py_int Fnan = Inl ValueError"
| "py_int (Fval x) = Inr (if 0 \<le> x then \<lfloor>x\<rfloor> else \<lceil>x\<rceil>)"

text \<open>
  The order in which \<^verbatim>\<open>Series.mode()\<close> and \<^verbatim>\<open>sort_values\<close> arrange the cells of a
  column: numbers by value, texts by code points. A column read from CSV holds numbers
  or texts, not both; the key puts numbers first.
\<close>

fun cell_key :: "cell \<Rightarrow> nat \<times> rat \<times> string" where
  "cell_key (IntC n) = (0, of_int n, [])"
| "cell_key (FloatC x) = (0, x, [])"
| "cell_key (StrC s) = (1, 0, s)"
| "cell_key NaN = (2, 0, [])"

text \<open>
  \<^verbatim>\<open>Series.mode()\<close>: the values that occur most often among the non-missing ones,
  sorted. \<^verbatim>\<open>mode()[0]\<close> is the first of them, \<^verbatim>\<open>KeyError: 0\<close> when there is none.
\<close>

definition series_mode :: "cell list \<Rightarrow> cell list" where
  "series_mode xs =
     (let vs = dropna xs;
          top = fold max (map (count_list vs) vs) 0
      in sort_key cell_key (remdups (filter (\<lambda>v. count_list vs v = top) vs)))"

definition first_item :: "cell list \<Rightarrow> halt + cell" where
  "first_item xs = (case xs of [] \<Rightarrow> Inl (KeyError ''0'') | x # _ \<Rightarrow> Inr x)"

record kpis =
  locations :: nat
  average_aqi :: pyfloat
  max_aqi :: int
  dominant_category :: cell

text \<open>Lines 88 to 91, evaluated in this order.\<close>

definition metrics :: "frame \<Rightarrow> halt + kpis" where
  "metrics f =
     and_then (getcol f ''AQI Value'') (\<lambda>aqi.
     and_then (series_mean aqi) (\<lambda>m.
     and_then (getcol f ''AQI Value'') (\<lambda>aqi2.
     and_then (series_max aqi2) (\<lambda>mx.
     and_then (py_int mx) (\<lambda>k3.
     and_then (getcol f ''AQI Category'') (\<lambda>cat.
     and_then (first_item (series_mode cat)) (\<lambda>k4.
     Inr \<lparr>locations = length (rows f), average_aqi = round1 m,
          max_aqi = k3, dominant_category = k4\<rparr>)))))))"

section \<open>Top 10 (line 169)\<close>

text \<open>
  \<^verbatim>\<open>sort_values(c, ascending=False)\<close>: pandas sets the missing values aside, reverses
  the rest, sorts it in ascending order, reverses the outcome and puts the missing
  values last. Rows of equal value keep their order here; pandas leaves their order
  open.
\<close>

definition sort_values_desc :: "string \<Rightarrow> frame \<Rightarrow> halt + frame" where
  "sort_values_desc c f =
     (if c \<in> set (columns f)
      then (let i = index_of c (columns f);
                present = filter (\<lambda>r. cell_at i r \<noteq> NaN) (rows f);
                absent = filter (\<lambda>r. cell_at i r = NaN) (rows f)
            in Inr (f\<lparr>rows := rev (sort_key (\<lambda>r. cell_key (cell_at i r)) (rev present))
                                @ absent\<rparr>))
      else Inl (KeyError c))"

text \<open>\<^verbatim>\<open>head(n)\<close>.\<close>

definition head :: "nat \<Rightarrow> frame \<Rightarrow> frame" where
  "head n f = f\<lparr>rows := take n (rows f)\<rparr>"

definition top10 :: "frame \<Rightarrow> halt + frame" where
  "top10 f = and_then (sort_values_desc ''AQI Value'' f) (\<lambda>s. Inr (head 10 s))"

section \<open>Example frames\<close>

text \<open>The three-row dataset of the specification, as \<^verbatim>\<open>read_csv\<close> returns it.\<close>

definition example_dtypes :: "dtype list" where
  "example_dtypes = [Object, Object, Int64, Object, Int64, Int64, Int64, Int64, Int64, Int64]"

definition row_A :: "cell list" where
  "row_A = [StrC ''X'', StrC ''A'', IntC 50, StrC ''Good'',
            IntC 1, IntC 20, IntC 3, IntC 50, IntC 10, IntC 20]"

definition row_B :: "cell list" where
  "row_B = [StrC ''X'', StrC ''B'', IntC 80, StrC ''Moderate'',
            IntC 2, IntC 30, IntC 5, IntC 80, IntC 11, IntC 21]"

definition row_C :: "cell list" where
  "row_C = [StrC ''Y'', StrC ''C'', IntC 30, StrC ''Good'',
            IntC 1, IntC 10, IntC 2, IntC 30, IntC 12, IntC 22]"

definition example_df :: frame where
  "example_df = \<lparr>columns = required_columns, dtypes = example_dtypes,
                  rows = [row_A, row_B, row_C]\<rparr>"

text \<open>The same file without its \<^verbatim>\<open>lat\<close> column, and without its \<^verbatim>\<open>Country\<close> column.\<close>

definition no_lat_df :: frame where
  "no_lat_df =
     \<lparr>columns = [''Country'', ''City'', ''AQI Value'', ''AQI Category'', ''CO AQI Value'',
                 ''Ozone AQI Value'', ''NO2 AQI Value'', ''PM2.5 AQI Value'', ''lng''],
      dtypes = [Object, Object, Int64, Object, Int64, Int64, Int64, Int64, Int64],
      rows = [[StrC ''X'', StrC ''A'', IntC 50, StrC ''Good'',
               IntC 1, IntC 20, IntC 3, IntC 50, IntC 20]]\<rparr>"

definition no_country_df :: frame where
  "no_country_df =
     \<lparr>columns = [''City'', ''AQI Value'', ''AQI Category'', ''CO AQI Value'',
                 ''Ozone AQI Value'', ''NO2 AQI Value'', ''PM2.5 AQI Value'', ''lat'', ''lng''],
      dtypes = [Object, Int64, Object, Int64, Int64, Int64, Int64, Int64, Int64],
      rows = [[StrC ''A'', IntC 50, StrC ''Good'',
               IntC 1, IntC 20, IntC 3, IntC 50, IntC 10, IntC 20]]\<rparr>"

text \<open>A file whose second row has an empty \<^verbatim>\<open>Country\<close> field, read as \<^verbatim>\<open>NaN\<close>.\<close>

definition blank_country_df :: frame where
  "blank_country_df =
     \<lparr>columns = required_columns, dtypes = example_dtypes,
      rows = [row_A,
              [NaN, StrC ''B'', IntC 80, StrC ''Moderate'',
               IntC 2, IntC 30, IntC 5, IntC 80, IntC 11, IntC 21]]\<rparr>"

text \<open>
  A file whose \<^verbatim>\<open>AQI Value\<close> fields are all empty (a float64 column of \<^verbatim>\<open>NaN\<close>), and a
  file whose \<^verbatim>\<open>AQI Category\<close> fields are all empty.
\<close>

definition no_aqi_df :: frame where
  "no_aqi_df =
     \<lparr>columns = required_columns,
      dtypes = [Object, Object, Float64, Object, Int64, Int64, Int64, Int64, Int64, Int64],
      rows = [[StrC ''X'', StrC ''A'', NaN, StrC ''Good'',
               IntC 1, IntC 20, IntC 3, IntC 50, IntC 10, IntC 20],
              [StrC ''X'', StrC ''B'', NaN, StrC ''Moderate'',
               IntC 2, IntC 30, IntC 5, IntC 80, IntC 11, IntC 21]]\<rparr>"

definition no_category_df :: frame where
  "no_category_df =
     \<lparr>columns = required_columns,
      dtypes = [Object, Object, Int64, Float64, Int64, Int64, Int64, Int64, Int64, Int64],
      rows = [[StrC ''X'', StrC ''A'', IntC 50, NaN,
               IntC 1, IntC 20, IntC 3, IntC 50, IntC 10, IntC 20],
              [StrC ''X'', StrC ''B'', IntC 80, NaN,
               IntC 2, IntC 30, IntC 5, IntC 80, IntC 11, IntC 21]]\<rparr>"

text \<open>
  A file with the decimal AQI Values 50.25 and 80.5, and two rows whose AQI Value and
  AQI Category are empty.
\<close>

definition decimal_df :: frame where
  "decimal_df =
     \<lparr>columns = required_columns,
      dtypes = [Object, Object, Float64, Object, Int64, Int64, Int64, Int64, Float64, Float64],
      rows = [[StrC ''X'', StrC ''A'', FloatC (201 / 4), StrC ''Moderate'',
               IntC 1, IntC 20, IntC 3, IntC 50, FloatC (21 / 2), FloatC (- (81 / 4))],
              [StrC ''X'', StrC ''B'', NaN, NaN,
               IntC 2, IntC 30, IntC 5, IntC 80, FloatC 11, FloatC 21],
              [StrC ''X'', StrC ''C'', FloatC (161 / 2), StrC ''Good'',
               IntC 1, IntC 10, IntC 2, IntC 30, FloatC 12, FloatC 22],
              [StrC ''X'', StrC ''D'', NaN, NaN,
               IntC 2, IntC 40, IntC 6, IntC 90, FloatC 13, FloatC 23]]\<rparr>"

text \<open>A file with a header line and no data line.\<close>

definition header_only_df :: frame where
  "header_only_df =
     \<lparr>columns = required_columns,
      dtypes = [Object, Object, Object, Object, Object, Object, Object, Object, Object, Object],
      rows = []\<rparr>"

text \<open>Fifteen cities of one country, to rank.\<close>

definition city_row :: "string \<Rightarrow> int \<Rightarrow> cell list" where
  "city_row name aqi =
     [StrC ''X'', StrC name, IntC aqi, StrC ''Good'',
      IntC 1, IntC 20, IntC 3, IntC aqi, IntC 10, IntC 20]"

definition fifteen_df :: frame where
  "fifteen_df =
     \<lparr>columns = required_columns, dtypes = example_dtypes,
      rows = [city_row ''a'' 12, city_row ''b'' 95, city_row ''c'' 40, city_row ''d'' 7,
              city_row ''e'' 160, city_row ''f'' 33, city_row ''g'' 58, city_row ''h'' 71,
              city_row ''i'' 120, city_row ''j'' 5, city_row ''k'' 88, city_row ''l'' 301,
              city_row ''m'' 64, city_row ''n'' 19, city_row ''o'' 150]\<rparr>"

section \<open>Download (line 189) and a second upload (line 32)\<close>


























section \<open>The specification's words for the ranking and the dominant category\<close>

text \<open>
  Descending order of a column, missing values last: \<open>a\<close> may stand before \<open>b\<close>.
\<close>

definition desc_before :: "cell \<Rightarrow> cell \<Rightarrow> bool" where
  "desc_before a b = (b = NaN \<or> (a \<noteq> NaN \<and> cell_key b \<le> cell_key a))"

section \<open>Numbers as texts\<close>

text \<open>What \<^verbatim>\<open>astype(str)\<close> writes for 7, 7.0, 12.5, -12.5 and 0.00001.\<close>

lemma astype_str_examples:
  "map astype_str [IntC 7, FloatC 7, FloatC (25 / 2), FloatC (- (25 / 2)), FloatC (1 / 100000)]
     = [''7'', ''7.0'', ''12.5'', ''-12.5'', ''1e-05'']"
  by code_simp

section \<open>Properties of the filters\<close>

lemma required_present:
  "missing d = [] \<Longrightarrow> c \<in> set required_columns \<Longrightarrow> c \<in> set (columns d)"
  unfolding missing_def by (auto simp: filter_empty_conv)

lemma country_city_present:
  assumes "missing d = []"
  shows "''Country'' \<in> set (columns d)" and "''City'' \<in> set (columns d)"
  using assms by (auto intro: required_present simp: required_columns_def)

text \<open>The two masks of lines 77 to 80 amount to one pass with the conjunction.\<close>

lemma apply_filters_result:
  assumes "''Country'' \<in> set (columns d)" "''City'' \<in> set (columns d)"
  shows "apply_filters d country city =
    Inr (d\<lparr>rows := filter (spec_keeps d country city) (rows d)\<rparr>)"
  using assms
  by (auto simp: apply_filters_def and_then_def select_eq_def spec_keeps_def [abs_def])

lemma example_df_valid: "missing example_df = []"
  by (simp add: missing_def example_df_def required_columns_def)

lemma example_filter_X:
  "filter (spec_keeps example_df ''X'' ''All'') (rows example_df) = [row_A, row_B]"
  by (simp add: spec_keeps_def example_df_def required_columns_def cell_at_def
      row_A_def row_B_def row_C_def)

lemma example_apply_X:
  "apply_filters example_df ''X'' ''All'' = Inr (example_df\<lparr>rows := [row_A, row_B]\<rparr>)"
proof -
  have "''Country'' \<in> set (columns example_df)" "''City'' \<in> set (columns example_df)"
    using example_df_valid by (rule country_city_present)+
  then show ?thesis by (simp add: apply_filters_result example_filter_X)
qed

text \<open>
  C3. On a frame that passed the required-columns check, for every pair of choices, the
  filters of lines 76 to 80 do not raise and keep exactly the rows with
  (country = "All" or row.Country = country) and (city = "All" or row.City = city),
  in the order they have in the dataset.
\<close>

theorem filter_engine_spec:
  assumes "missing d = []"
  shows "\<exists>w. apply_filters d country city = Inr w \<and>
             rows w = filter (spec_keeps d country city) (rows d) \<and>
             subseq (rows w) (rows d)"
  using assms by (simp add: apply_filters_result country_city_present)

theorem filter_engine_spec_witness:
  "missing example_df = [] \<and>
   (\<exists>w. apply_filters example_df ''X'' ''All'' = Inr w \<and> rows w = [row_A, row_B] \<and>
        subseq (rows w) (rows example_df))"
  using filter_engine_spec [OF example_df_valid, of "''X''" "''All''"]
  by (simp add: example_df_valid example_filter_X)

text \<open>
  C9. Filtering is idempotent: applying the same pair of choices to the frame the
  filters produced gives that frame again.
\<close>

theorem filter_idempotent:
  assumes "missing d = []" and "apply_filters d country city = Inr w"
  shows "apply_filters w country city = Inr w"
proof -
  have p: "''Country'' \<in> set (columns d)" "''City'' \<in> set (columns d)"
    using assms(1) by (rule country_city_present)+
  have w: "w = d\<lparr>rows := filter (spec_keeps d country city) (rows d)\<rparr>"
    using assms(2) by (simp add: apply_filters_result p)
  have "columns w = columns d" by (simp add: w)
  then have "apply_filters w country city =
      Inr (w\<lparr>rows := filter (spec_keeps d country city) (rows w)\<rparr>)"
    using p by (simp add: apply_filters_result spec_keeps_def [abs_def])
  then show ?thesis by (simp add: w)
qed

theorem filter_idempotent_witness:
  "missing example_df = [] \<and>
   apply_filters example_df ''X'' ''All'' = Inr (example_df\<lparr>rows := [row_A, row_B]\<rparr>) \<and>
   apply_filters (example_df\<lparr>rows := [row_A, row_B]\<rparr>) ''X'' ''All''
     = Inr (example_df\<lparr>rows := [row_A, row_B]\<rparr>)"
  using filter_idempotent [OF example_df_valid example_apply_X]
  by (simp add: example_df_valid example_apply_X)

text \<open>
  C8. On a frame that passed the required-columns check, the filtered frame has the
  labels and the dtypes of the dataset, every one of its rows is a row of the dataset
  (the rows are a subsequence of the dataset's), and \<^verbatim>\<open>df\<close> is what it was before.
\<close>

theorem subset_and_schema:
  assumes "missing (df s) = []"
  shows "\<exists>s'. filter_step country city s = Inr s' \<and>
              df s' = df s \<and>
              set (rows (filtered_df s')) \<subseteq> set (rows (df s)) \<and>
              subseq (rows (filtered_df s')) (rows (df s)) \<and>
              columns (filtered_df s') = columns (df s) \<and>
              dtypes (filtered_df s') = dtypes (df s)"
  using assms
  by (simp add: filter_step_def and_then_def apply_filters_result country_city_present)

theorem subset_and_schema_witness:
  "missing (df \<lparr>df = example_df, filtered_df = example_df\<rparr>) = [] \<and>
   (\<exists>s'. filter_step ''X'' ''All'' \<lparr>df = example_df, filtered_df = example_df\<rparr> = Inr s' \<and>
         df s' = example_df \<and>
         set (rows (filtered_df s')) \<subseteq> set (rows example_df) \<and>
         columns (filtered_df s') = required_columns \<and>
         dtypes (filtered_df s') = example_dtypes)"
proof -
  have "\<exists>s'. filter_step ''X'' ''All'' \<lparr>df = example_df, filtered_df = example_df\<rparr> = Inr s' \<and>
         df s' = example_df \<and>
         set (rows (filtered_df s')) \<subseteq> set (rows example_df) \<and>
         subseq (rows (filtered_df s')) (rows example_df) \<and>
         columns (filtered_df s') = columns example_df \<and>
         dtypes (filtered_df s') = dtypes example_df"
    using subset_and_schema [of "\<lparr>df = example_df, filtered_df = example_df\<rparr>" "''X''" "''All''"]
    by (simp add: example_df_valid)
  then obtain s' where "filter_step ''X'' ''All'' \<lparr>df = example_df, filtered_df = example_df\<rparr> = Inr s'"
    "df s' = example_df" "set (rows (filtered_df s')) \<subseteq> set (rows example_df)"
    "columns (filtered_df s') = columns example_df" "dtypes (filtered_df s') = dtypes example_df"
    by blast
  then show ?thesis
    by (simp add: example_df_valid) (simp add: example_df_def)
qed

section \<open>The metrics of an empty subset\<close>

lemma metrics_no_rows:
  assumes "''AQI Value'' \<in> set (columns f)" and "rows f = []"
  shows "metrics f = Inl ValueError"
  using assms
  by (simp add: metrics_def and_then_def getcol_def column_cells_def series_mean_def series_max_def)

lemma example_apply_X_C:
  "apply_filters example_df ''X'' ''C'' = Inr (example_df\<lparr>rows := []\<rparr>)"
proof -
  have "''Country'' \<in> set (columns example_df)" "''City'' \<in> set (columns example_df)"
    using example_df_valid by (rule country_city_present)+
  moreover have "filter (spec_keeps example_df ''X'' ''C'') (rows example_df) = []"
    by (simp add: spec_keeps_def example_df_def required_columns_def cell_at_def
      row_A_def row_B_def row_C_def)
  ultimately show ?thesis by (simp add: apply_filters_result)
qed

text \<open>
  C1, as the specification states it, fails: with country X and city C, both offered
  by the select boxes of the example dataset, no row is left and line 90 raises
  \<^verbatim>\<open>ValueError\<close> instead of showing a fallback value.
\<close>

theorem empty_subset_fallback_counterexample:
  "apply_filters example_df ''X'' ''C'' = Inr (example_df\<lparr>rows := []\<rparr>) \<and>
   rows (example_df\<lparr>rows := []\<rparr>) = [] \<and>
   metrics (example_df\<lparr>rows := []\<rparr>) = Inl ValueError"
proof -
  have "''AQI Value'' \<in> set (columns (example_df\<lparr>rows := []\<rparr>))"
    by (simp add: example_df_def required_columns_def)
  then have "metrics (example_df\<lparr>rows := []\<rparr>) = Inl ValueError"
    by (rule metrics_no_rows) simp
  then show ?thesis by (simp add: example_apply_X_C)
qed

text \<open>
  C1, amended. Whenever the filters leave no row, the script has no fallback: the count
  is 0, the rounded mean of line 89 is \<^verbatim>\<open>nan\<close>, and line 90 raises \<^verbatim>\<open>ValueError\<close>
  (\<^verbatim>\<open>int\<close> of \<^verbatim>\<open>nan\<close>), so that no maximum and no dominant category are shown.
\<close>

theorem empty_subset_raises:
  assumes "missing d = []" and "apply_filters d country city = Inr w" and "rows w = []"
  shows "length (rows w) = 0 \<and>
         and_then (getcol w ''AQI Value'') (\<lambda>aqi. and_then (series_mean aqi) (\<lambda>m. Inr (round1 m)))
           = Inr Fnan \<and>
         metrics w = Inl ValueError"
proof -
  have p: "''Country'' \<in> set (columns d)" "''City'' \<in> set (columns d)"
    using assms(1) by (rule country_city_present)+
  have "columns w = columns d"
    using assms(2) by (auto simp: apply_filters_result p)
  moreover have "''AQI Value'' \<in> set (columns d)"
    using assms(1) by (rule required_present) (simp add: required_columns_def)
  ultimately have a: "''AQI Value'' \<in> set (columns w)" by simp
  show ?thesis
    using a assms(3) metrics_no_rows [OF a assms(3)]
    by (simp add: and_then_def getcol_def column_cells_def series_mean_def)
qed

theorem empty_subset_raises_witness:
  "missing example_df = [] \<and>
   apply_filters example_df ''X'' ''C'' = Inr (example_df\<lparr>rows := []\<rparr>) \<and>
   rows (example_df\<lparr>rows := []\<rparr>) = [] \<and>
   metrics (example_df\<lparr>rows := []\<rparr>) = Inl ValueError"
  using empty_subset_raises [OF example_df_valid example_apply_X_C]
  by (simp add: example_df_valid example_apply_X_C)

section \<open>The required-columns check\<close>

lemma set_missing: "set (missing d) = set required_columns - set (columns d)"
  by (auto simp: missing_def)

text \<open>
  With both \<^verbatim>\<open>Country\<close> and \<^verbatim>\<open>City\<close> present, the check stops the script with the
  required labels that are absent, in the order of \<^verbatim>\<open>required_columns\<close>.
\<close>

lemma load_with_country_city:
  assumes "''Country'' \<in> set (columns (strip_columns raw))"
    and "''City'' \<in> set (columns (strip_columns raw))"
    and "missing (strip_columns raw) \<noteq> []"
  shows "load raw = Inl (MissingColumns (missing (strip_columns raw)))"
  using assms
  by (simp add: load_def and_then_def clean_column_def Let_def missing_def)

lemma load_without_lat: "load no_lat_df = Inl (MissingColumns [''lat''])"
  by (simp add: load_def and_then_def clean_column_def strip_columns_def no_lat_df_def
      strip_def isspace_def Let_def missing_def required_columns_def)

text \<open>
  C2 at a file without its \<^verbatim>\<open>Country\<close> column: line 36 reads \<^verbatim>\<open>df["Country"]\<close> before
  the check of lines 49 to 53 runs, and the script ends in \<^verbatim>\<open>KeyError\<close>; the list of
  missing columns is never shown.
\<close>

theorem load_without_country: "load no_country_df = Inl (KeyError ''Country'')"
  by (simp add: load_def and_then_def clean_column_def strip_columns_def no_country_df_def
      strip_def isspace_def)

section \<open>The options of the select boxes\<close>

text \<open>
  C7 at a file with an empty \<^verbatim>\<open>Country\<close> field: \<^verbatim>\<open>astype(str)\<close> (line 36) has turned
  the missing value into the text \<^verbatim>\<open>nan\<close> before \<^verbatim>\<open>dropna()\<close> (line 68) runs, and the
  select box offers \<^verbatim>\<open>nan\<close> as a country.
\<close>

theorem blank_country_in_options:
  "and_then (load blank_country_df) (options ''Country'') = Inr [''All'', ''X'', ''nan'']"
  by (simp add: load_def and_then_def clean_column_def strip_columns_def blank_country_df_def
      strip_def isspace_def Let_def missing_def required_columns_def options_def getcol_def
      column_cells_def cell_at_def row_A_def dropna_def)

text \<open>After lines 36 and 37 the two columns hold texts only.\<close>

lemma cell_at_update:
  "cell_at i (r[j := v]) = (if i = j \<and> j < length r then v else cell_at i r)"
  by (auto simp: cell_at_def)

lemma clean_column_texts:
  assumes "clean_column c d = Inr d'"
  shows "\<forall>x\<in>set (column_cells c d'). x = NaN \<or> is_text x"
  using assms
  by (auto simp: clean_column_def Let_def column_cells_def cell_at_update cell_at_def
      split: if_splits)

lemma keep_text_cell:
  assumes "cell_at i r = NaN \<or> is_text (cell_at i r)"
  shows "cell_at i (r[j := StrC t]) = NaN \<or> is_text (cell_at i (r[j := StrC t]))"
  using assms by (auto simp: cell_at_update)

lemma clean_column_keeps_texts:
  assumes "clean_column c2 d = Inr d'"
    and "\<forall>x\<in>set (column_cells c d). x = NaN \<or> is_text x"
  shows "\<forall>x\<in>set (column_cells c d'). x = NaN \<or> is_text x"
proof
  fix x
  assume "x \<in> set (column_cells c d')"
  then obtain r t where r: "r \<in> set (rows d)"
    and x: "x = cell_at (index_of c (columns d)) (r[index_of c2 (columns d) := StrC t])"
    using assms(1)
    by (auto simp: clean_column_def Let_def column_cells_def split: if_splits)
  from r have "cell_at (index_of c (columns d)) r \<in> set (column_cells c d)"
    by (simp add: column_cells_def)
  with assms(2) have "cell_at (index_of c (columns d)) r = NaN \<or>
      is_text (cell_at (index_of c (columns d)) r)"
    by blast
  then show "x = NaN \<or> is_text x"
    unfolding x by (rule keep_text_cell)
qed

lemma columns_clean: "clean_column c d = Inr d' \<Longrightarrow> columns d' = columns d"
  by (auto simp: clean_column_def Let_def split: if_splits)

lemma load_cases:
  assumes "load raw = Inr d"
  obtains d1 where "clean_column ''Country'' (strip_columns raw) = Inr d1"
    and "clean_column ''City'' d1 = Inr d" and "missing d = []"
  using assms
  by (auto simp: load_def and_then_def split: sum.splits if_splits)

lemma load_texts:
  assumes "load raw = Inr d"
  shows "\<forall>x\<in>set (column_cells ''Country'' d). x = NaN \<or> is_text x"
    and "\<forall>x\<in>set (column_cells ''City'' d). x = NaN \<or> is_text x"
proof -
  from assms obtain d1 where 1: "clean_column ''Country'' (strip_columns raw) = Inr d1"
    and 2: "clean_column ''City'' d1 = Inr d" by (rule load_cases)
  show "\<forall>x\<in>set (column_cells ''Country'' d). x = NaN \<or> is_text x"
    using clean_column_keeps_texts [OF 2 clean_column_texts [OF 1]] .
  show "\<forall>x\<in>set (column_cells ''City'' d). x = NaN \<or> is_text x"
    using clean_column_texts [OF 2] .
qed

lemma load_valid: "load raw = Inr d \<Longrightarrow> missing d = []"
  by (erule load_cases)

lemma text_cell: "is_text x \<Longrightarrow> x = StrC (astype_str x)"
  by (cases x) auto

lemma option_has_row:
  assumes t: "\<forall>x\<in>set (column_cells c d). x = NaN \<or> is_text x"
    and o: "options c d = Inr opts" and v: "v \<in> set opts" "v \<noteq> ''All''"
  shows "\<exists>r\<in>set (rows d). cell_at (index_of c (columns d)) r = StrC v"
proof -
  from o have "opts = ''All'' # sort (remdups (map astype_str (dropna (column_cells c d))))"
    by (auto simp: options_def and_then_def getcol_def split: if_splits)
  with v obtain x where x: "x \<in> set (column_cells c d)" "x \<noteq> NaN" "astype_str x = v"
    by (auto simp: dropna_def)
  with t have "x = StrC v" using text_cell by blast
  with x(1) show ?thesis by (auto simp: column_cells_def)
qed

lemma country_option_nonempty:
  assumes l: "load raw = Inr d" and o: "options ''Country'' d = Inr opts"
    and v: "v \<in> set opts" "v \<noteq> ''All''"
  shows "\<exists>w. apply_filters d v ''All'' = Inr w \<and> rows w \<noteq> []"
proof -
  have p: "''Country'' \<in> set (columns d)" "''City'' \<in> set (columns d)"
    using load_valid [OF l] by (rule country_city_present)+
  obtain r where "r \<in> set (rows d)" "cell_at (index_of ''Country'' (columns d)) r = StrC v"
    using option_has_row [OF load_texts(1) [OF l] o v] by blast
  then have "r \<in> set (filter (spec_keeps d v ''All'') (rows d))"
    by (simp add: spec_keeps_def)
  then have "filter (spec_keeps d v ''All'') (rows d) \<noteq> []"
    by (metis empty_iff empty_set)
  then show ?thesis by (simp add: apply_filters_result p)
qed

lemma city_option_nonempty:
  assumes l: "load raw = Inr d" and o: "options ''City'' d = Inr opts"
    and v: "v \<in> set opts" "v \<noteq> ''All''"
  shows "\<exists>w. apply_filters d ''All'' v = Inr w \<and> rows w \<noteq> []"
proof -
  have p: "''Country'' \<in> set (columns d)" "''City'' \<in> set (columns d)"
    using load_valid [OF l] by (rule country_city_present)+
  obtain r where "r \<in> set (rows d)" "cell_at (index_of ''City'' (columns d)) r = StrC v"
    using option_has_row [OF load_texts(2) [OF l] o v] by blast
  then have "r \<in> set (filter (spec_keeps d ''All'' v) (rows d))"
    by (simp add: spec_keeps_def)
  then have "filter (spec_keeps d ''All'' v) (rows d) \<noteq> []"
    by (metis empty_iff empty_set)
  then show ?thesis by (simp add: apply_filters_result p)
qed

lemma no_filter_identity: "apply_filters d ''All'' ''All'' = Inr d"
  by (simp add: apply_filters_def and_then_def)

text \<open>
  C10, amended. On a loaded dataset, every country the select box offers, other than
  "All", leaves at least one row when the city is "All", and so does every city
  offered with the country at "All". When the dataset has a row and both choices
  come from the select boxes, no row is left only if both choices differ from "All".
\<close>

theorem option_choice_nonempty:
  assumes "load raw = Inr d"
    and "options ''Country'' d = Inr countries" and "options ''City'' d = Inr cities"
  shows "(\<forall>c\<in>set countries. c \<noteq> ''All'' \<longrightarrow>
            (\<exists>w. apply_filters d c ''All'' = Inr w \<and> rows w \<noteq> [])) \<and>
         (\<forall>c\<in>set cities. c \<noteq> ''All'' \<longrightarrow>
            (\<exists>w. apply_filters d ''All'' c = Inr w \<and> rows w \<noteq> [])) \<and>
         (\<forall>country\<in>set countries. \<forall>city\<in>set cities. \<forall>w.
            rows d \<noteq> [] \<and> apply_filters d country city = Inr w \<and> rows w = [] \<longrightarrow>
            country \<noteq> ''All'' \<and> city \<noteq> ''All'')"
proof (intro conjI ballI allI impI)
  fix c assume "c \<in> set countries" "c \<noteq> ''All''"
  then show "\<exists>w. apply_filters d c ''All'' = Inr w \<and> rows w \<noteq> []"
    using country_option_nonempty [OF assms(1,2)] by blast
next
  fix c assume "c \<in> set cities" "c \<noteq> ''All''"
  then show "\<exists>w. apply_filters d ''All'' c = Inr w \<and> rows w \<noteq> []"
    using city_option_nonempty [OF assms(1,3)] by blast
next
  fix country city w
  assume c: "country \<in> set countries" "city \<in> set cities"
    and e: "rows d \<noteq> [] \<and> apply_filters d country city = Inr w \<and> rows w = []"
  show "country \<noteq> ''All''"
  proof
    assume a: "country = ''All''"
    show False
    proof (cases "city = ''All''")
      case True
      with a e show False by (auto simp: no_filter_identity)
    next
      case False
      with city_option_nonempty [OF assms(1,3) c(2)] a e show False by auto
    qed
  qed
  show "city \<noteq> ''All''"
  proof
    assume a: "city = ''All''"
    show False
    proof (cases "country = ''All''")
      case True
      with a e show False by (auto simp: no_filter_identity)
    next
      case False
      with country_option_nonempty [OF assms(1,2) c(1)] a e show False by auto
    qed
  qed
qed

lemma load_example: "load example_df = Inr example_df"
  by (simp add: load_def and_then_def clean_column_def strip_columns_def example_df_def
      strip_def isspace_def Let_def missing_def required_columns_def cell_at_def
      row_A_def row_B_def row_C_def example_dtypes_def)

lemma example_countries: "options ''Country'' example_df = Inr [''All'', ''X'', ''Y'']"
  by (simp add: options_def and_then_def getcol_def column_cells_def example_df_def
      required_columns_def cell_at_def row_A_def row_B_def row_C_def dropna_def)

lemma example_cities: "options ''City'' example_df = Inr [''All'', ''A'', ''B'', ''C'']"
  by (simp add: options_def and_then_def getcol_def column_cells_def example_df_def
      required_columns_def cell_at_def row_A_def row_B_def row_C_def dropna_def)

theorem option_choice_nonempty_witness:
  "load example_df = Inr example_df \<and>
   options ''Country'' example_df = Inr [''All'', ''X'', ''Y''] \<and>
   options ''City'' example_df = Inr [''All'', ''A'', ''B'', ''C''] \<and>
   (\<exists>w. apply_filters example_df ''X'' ''All'' = Inr w \<and> rows w \<noteq> []) \<and>
   (\<exists>w. apply_filters example_df ''All'' ''A'' = Inr w \<and> rows w \<noteq> []) \<and>
   rows example_df \<noteq> [] \<and>
   apply_filters example_df ''X'' ''C'' = Inr (example_df\<lparr>rows := []\<rparr>) \<and>
   rows (example_df\<lparr>rows := []\<rparr>) = [] \<and> ''X'' \<noteq> ''All'' \<and> ''C'' \<noteq> ''All''"
proof -
  note t = option_choice_nonempty [OF load_example example_countries example_cities]
  from t have "\<exists>w. apply_filters example_df ''X'' ''All'' = Inr w \<and> rows w \<noteq> []"
    by simp
  moreover from t have "\<exists>w. apply_filters example_df ''All'' ''A'' = Inr w \<and> rows w \<noteq> []"
    by simp
  moreover have "rows example_df \<noteq> []" by (simp add: example_df_def)
  ultimately show ?thesis
    by (simp add: load_example example_countries example_cities example_apply_X_C)
qed

text \<open>
  C10, as stated, fails in its last part: a file with a header line and no data line
  loads, both select boxes offer "All" alone, and with both choices at "All" the
  filtered frame has no row.
\<close>

theorem header_only_counterexample:
  "load header_only_df = Inr header_only_df \<and>
   options ''Country'' header_only_df = Inr [''All''] \<and>
   options ''City'' header_only_df = Inr [''All''] \<and>
   apply_filters header_only_df ''All'' ''All'' = Inr header_only_df \<and>
   rows header_only_df = []"
  by (simp add: no_filter_identity)
    (simp add: load_def and_then_def clean_column_def strip_columns_def header_only_df_def
      strip_def isspace_def Let_def missing_def required_columns_def options_def getcol_def
      column_cells_def dropna_def)

section \<open>The ranking of line 169\<close>

lemma desc_before_refl: "desc_before a a"
  by (simp add: desc_before_def)

lemma sorted_desc_rev_sort:
  assumes "\<forall>r\<in>set xs. k r \<noteq> NaN"
  shows "sorted_wrt desc_before (map k (rev (sort_key (\<lambda>r. cell_key (k r)) xs)))"
proof -
  have "sorted (map (\<lambda>r. cell_key (k r)) (sort_key (\<lambda>r. cell_key (k r)) xs))"
    by (rule sorted_sort_key)
  then have "sorted_wrt (\<lambda>a b. cell_key (k a) \<le> cell_key (k b)) (sort_key (\<lambda>r. cell_key (k r)) xs)"
    by (simp add: sorted_wrt_map)
  then have "sorted_wrt (\<lambda>a b. cell_key (k b) \<le> cell_key (k a))
      (rev (sort_key (\<lambda>r. cell_key (k r)) xs))"
    by (simp add: sorted_wrt_rev)
  then have "sorted_wrt (\<lambda>a b. desc_before (k a) (k b))
      (rev (sort_key (\<lambda>r. cell_key (k r)) xs))"
    by (rule sorted_wrt_mono_rel [rotated]) (use assms in \<open>auto simp: desc_before_def\<close>)
  then show ?thesis by (simp add: sorted_wrt_map)
qed

lemma sorted_desc_all_nan:
  assumes "\<forall>r\<in>set xs. k r = NaN"
  shows "sorted_wrt desc_before (map k xs)"
  using assms by (induction xs) (auto simp: desc_before_def)

lemma sort_values_desc_result:
  assumes "c \<in> set (columns f)"
  shows "\<exists>s. sort_values_desc c f = Inr s \<and> columns s = columns f \<and> dtypes s = dtypes f \<and>
     mset (rows s) = mset (rows f) \<and> sorted_wrt desc_before (column_cells c s)"
proof -
  define i where "i = index_of c (columns f)"
  define present where "present = filter (\<lambda>r. cell_at i r \<noteq> NaN) (rows f)"
  define absent where "absent = filter (\<lambda>r. cell_at i r = NaN) (rows f)"
  define s where "s = f\<lparr>rows := rev (sort_key (\<lambda>r. cell_key (cell_at i r)) (rev present)) @ absent\<rparr>"
  have 1: "sort_values_desc c f = Inr s"
    using assms by (simp add: sort_values_desc_def Let_def s_def i_def present_def absent_def)
  have 2: "mset (rows s) = mset (rows f)"
    by (simp add: s_def present_def absent_def)
  have a: "sorted_wrt desc_before (map (cell_at i) (rev (sort_key (\<lambda>r. cell_key (cell_at i r)) (rev present))))"
    by (rule sorted_desc_rev_sort) (simp add: present_def)
  have b: "sorted_wrt desc_before (map (cell_at i) absent)"
    by (rule sorted_desc_all_nan) (simp add: absent_def)
  have "sorted_wrt desc_before (map (cell_at i) (rows s))"
    using a b by (auto simp: s_def sorted_wrt_append absent_def desc_before_def)
  then have 3: "sorted_wrt desc_before (column_cells c s)"
    by (simp add: column_cells_def s_def i_def)
  show ?thesis using 1 2 3 by (simp add: s_def)
qed

lemma fifteen_top10:
  "top10 fifteen_df = Inr (fifteen_df\<lparr>rows :=
     [city_row ''l'' 301, city_row ''e'' 160, city_row ''o'' 150, city_row ''i'' 120,
      city_row ''b'' 95, city_row ''k'' 88, city_row ''h'' 71, city_row ''m'' 64,
      city_row ''g'' 58, city_row ''c'' 40]\<rparr>)"
  by (simp add: top10_def and_then_def sort_values_desc_def head_def fifteen_df_def
      required_columns_def Let_def cell_at_def city_row_def)

lemma example_top10:
  "top10 example_df = Inr (example_df\<lparr>rows := [row_B, row_A, row_C]\<rparr>)"
  by (simp add: top10_def and_then_def sort_values_desc_def head_def example_df_def
      required_columns_def Let_def cell_at_def row_A_def row_B_def row_C_def)

lemma numbers_cell:
  "m \<in> set (numbers xs) \<Longrightarrow> \<exists>c\<in>set xs. c \<noteq> NaN \<and> cell_key c = (0, m, [])"
  by (induction xs rule: numbers.induct) auto

lemma below_first_number:
  assumes "\<forall>c\<in>set xs. desc_before a c" and "cell_key a = (0, v, [])"
    and "m \<in> set (numbers xs)"
  shows "m \<le> v"
proof -
  from numbers_cell [OF assms(3)] obtain c where c: "c \<in> set xs" "c \<noteq> NaN"
    "cell_key c = (0, m, [])" by blast
  with assms(1) have "cell_key c \<le> cell_key a" by (auto simp: desc_before_def)
  then show ?thesis by (auto simp: c(3) assms(2))
qed

lemma sorted_numbers:
  assumes "sorted_wrt desc_before xs"
  shows "sorted_wrt (\<ge>) (numbers xs)"
  using assms
proof (induction xs rule: numbers.induct)
  case (2 n xs)
  then have "\<forall>c\<in>set xs. desc_before (IntC n) c" by simp
  then have "\<forall>m\<in>set (numbers xs). m \<le> of_int n"
    using below_first_number [of xs "IntC n" "of_int n"] by simp
  with 2 show ?case by simp
next
  case (3 x xs)
  then have "\<forall>c\<in>set xs. desc_before (FloatC x) c" by simp
  then have "\<forall>m\<in>set (numbers xs). m \<le> x"
    using below_first_number [of xs "FloatC x" x] by simp
  with 3 show ?case by simp
qed auto

lemma sorted_head_first:
  assumes "sorted_wrt desc_before xs" and "x \<in> set xs"
  shows "desc_before (hd xs) x"
  using assms by (cases xs) (auto simp: desc_before_refl)

text \<open>
  C6. \<^verbatim>\<open>top10\<close> is the first 10 rows of the subset sorted by AQI Value in descending
  order (missing values last), all of them when there are fewer: 10 rows of a subset
  of 15, 3 of a subset of 3, in descending order, and the first row, which the reversed
  axis of line 181 draws on top, holds the highest AQI Value of the subset.
\<close>

theorem top10_spec:
  assumes "''AQI Value'' \<in> set (columns f)"
  shows "\<exists>s t. sort_values_desc ''AQI Value'' f = Inr s \<and> top10 f = Inr t \<and>
      mset (rows s) = mset (rows f) \<and>
      sorted_wrt desc_before (column_cells ''AQI Value'' s) \<and>
      rows t = take 10 (rows s) \<and>
      length (rows t) = min 10 (length (rows f)) \<and>
      (length (rows f) = 15 \<longrightarrow> length (rows t) = 10) \<and>
      (length (rows f) = 3 \<longrightarrow> length (rows t) = 3) \<and>
      sorted_wrt desc_before (column_cells ''AQI Value'' t) \<and>
      sorted_wrt (\<ge>) (numbers (column_cells ''AQI Value'' t)) \<and>
      (\<forall>x\<in>set (column_cells ''AQI Value'' f).
          rows t \<noteq> [] \<and> desc_before (hd (column_cells ''AQI Value'' t)) x)"
proof -
  from sort_values_desc_result [OF assms] obtain s where
    s: "sort_values_desc ''AQI Value'' f = Inr s" "columns s = columns f"
      "mset (rows s) = mset (rows f)" "sorted_wrt desc_before (column_cells ''AQI Value'' s)"
    by blast
  define t where "t = head 10 s"
  have t: "top10 f = Inr t" by (simp add: top10_def and_then_def s(1) t_def)
  have len: "length (rows s) = length (rows f)"
    using s(3) by (rule mset_eq_length)
  have ct: "column_cells ''AQI Value'' t = take 10 (column_cells ''AQI Value'' s)"
    by (simp add: t_def head_def column_cells_def take_map)
  have st: "sorted_wrt desc_before (column_cells ''AQI Value'' t)"
    unfolding ct using s(4) by (rule sorted_wrt_take)
  have cells: "set (column_cells ''AQI Value'' s) = set (column_cells ''AQI Value'' f)"
  proof -
    have "set (rows s) = set (rows f)" using s(3) by (rule mset_eq_setD)
    then show ?thesis by (simp add: column_cells_def s(2))
  qed
  have top: "rows t \<noteq> [] \<and> desc_before (hd (column_cells ''AQI Value'' t)) x"
    if x: "x \<in> set (column_cells ''AQI Value'' f)" for x
  proof -
    from x have ne: "rows f \<noteq> []" by (auto simp: column_cells_def)
    with len have ne_s: "rows s \<noteq> []" by auto
    then have "column_cells ''AQI Value'' s \<noteq> []" by (simp add: column_cells_def)
    then have "hd (column_cells ''AQI Value'' t) = hd (column_cells ''AQI Value'' s)"
      by (simp add: ct)
    moreover have "desc_before (hd (column_cells ''AQI Value'' s)) x"
      using s(4) x cells by (auto intro: sorted_head_first)
    ultimately show ?thesis using ne_s by (simp add: t_def head_def)
  qed
  show ?thesis
    using s(1,3,4) t st sorted_numbers [OF st] top len
    by (intro exI [of _ s] exI [of _ t]) (simp add: t_def head_def)
qed

theorem top10_spec_witness:
  "''AQI Value'' \<in> set (columns fifteen_df) \<and> length (rows fifteen_df) = 15 \<and>
   (\<exists>t. top10 fifteen_df = Inr t \<and> length (rows t) = 10 \<and>
        column_cells ''AQI Value'' t =
          [IntC 301, IntC 160, IntC 150, IntC 120, IntC 95, IntC 88, IntC 71, IntC 64,
           IntC 58, IntC 40] \<and>
        desc_before (hd (column_cells ''AQI Value'' t)) (IntC 12)) \<and>
   ''AQI Value'' \<in> set (columns example_df) \<and> length (rows example_df) = 3 \<and>
   (\<exists>t. top10 example_df = Inr t \<and> length (rows t) = 3 \<and>
        column_cells ''AQI Value'' t = [IntC 80, IntC 50, IntC 30])"
proof -
  have a: "''AQI Value'' \<in> set (columns fifteen_df)"
    by (simp add: fifteen_df_def required_columns_def)
  have b: "''AQI Value'' \<in> set (columns example_df)"
    by (simp add: example_df_def required_columns_def)
  have la: "length (rows fifteen_df) = 15" by (simp add: fifteen_df_def)
  have lb: "length (rows example_df) = 3" by (simp add: example_df_def)
  have x: "IntC 12 \<in> set (column_cells ''AQI Value'' fifteen_df)"
    by (simp add: column_cells_def fifteen_df_def required_columns_def cell_at_def city_row_def)
  from top10_spec [OF a] la x obtain t where
    t: "top10 fifteen_df = Inr t" "length (rows t) = 10"
      "desc_before (hd (column_cells ''AQI Value'' t)) (IntC 12)"
    by blast
  have ct: "column_cells ''AQI Value'' t =
          [IntC 301, IntC 160, IntC 150, IntC 120, IntC 95, IntC 88, IntC 71, IntC 64,
           IntC 58, IntC 40]"
    using t(1) unfolding fifteen_top10
    by (auto simp: column_cells_def fifteen_df_def required_columns_def cell_at_def city_row_def)
  from top10_spec [OF b] lb obtain u where
    u: "top10 example_df = Inr u" "length (rows u) = 3"
    by blast
  have cu: "column_cells ''AQI Value'' u = [IntC 80, IntC 50, IntC 30]"
    using u(1) unfolding example_top10
    by (auto simp: column_cells_def example_df_def required_columns_def cell_at_def
        row_A_def row_B_def row_C_def)
  show ?thesis using a b la lb t ct u cu by blast
qed

section \<open>The metrics of a subset with rows\<close>

lemma fold_max_Max: "fold max xs (a::'a::linorder) = Max (set (a # xs))"
  by (simp only: Max.set_eq_fold)

lemma series_mean_numeric:
  assumes "\<not> list_ex is_text xs" and "numbers xs \<noteq> []"
  shows "series_mean xs = Inr (Fval (sum_list (numbers xs) / of_nat (length (numbers xs))))"
  using assms by (simp add: series_mean_def)

lemma series_max_numeric:
  assumes "\<not> list_ex is_text xs" and "numbers xs \<noteq> []"
  shows "series_max xs = Inr (Fval (Max (set (numbers xs))))"
proof -
  from assms(2) obtain a ys where n: "numbers xs = a # ys" by (cases "numbers xs") auto
  have "fold max ys a = Max (set (a # ys))" by (rule fold_max_Max)
  then show ?thesis
    using assms(1) by (simp add: series_max_def n)
qed

text \<open>\<^verbatim>\<open>int\<close> drops the decimals: the result is no further from zero than its argument.\<close>

lemma py_int_truncates:
  "\<exists>t. py_int (Fval x) = Inr t \<and> t = (if 0 \<le> x then \<lfloor>x\<rfloor> else \<lceil>x\<rceil>) \<and>
       \<bar>of_int t\<bar> \<le> \<bar>x\<bar> \<and> \<bar>x - of_int t\<bar> < 1"
proof (cases "0 \<le> x")
  case True
  have p: "py_int (Fval x) = Inr \<lfloor>x\<rfloor>" using True by simp
  have fl: "of_int \<lfloor>x\<rfloor> \<le> x" "x < of_int \<lfloor>x\<rfloor> + 1" by linarith+
  have "0 \<le> \<lfloor>x\<rfloor>" using True by simp
  then have nn: "(0::rat) \<le> of_int \<lfloor>x\<rfloor>" by simp
  have a: "\<bar>of_int \<lfloor>x\<rfloor>\<bar> \<le> \<bar>x\<bar>" using nn fl True by linarith
  have b: "\<bar>x - of_int \<lfloor>x\<rfloor>\<bar> < 1" using fl by linarith
  from p a b True show ?thesis by (intro exI [of _ "\<lfloor>x\<rfloor>"]) simp
next
  case False
  have p: "py_int (Fval x) = Inr \<lceil>x\<rceil>" using False by simp
  have cl: "x \<le> of_int \<lceil>x\<rceil>" "of_int \<lceil>x\<rceil> < x + 1" by linarith+
  have "\<lceil>x\<rceil> \<le> 0" using False by (simp add: ceiling_le_iff)
  then have np: "of_int \<lceil>x\<rceil> \<le> (0::rat)" by simp
  have a: "\<bar>of_int \<lceil>x\<rceil>\<bar> \<le> \<bar>x\<bar>" using np cl False by linarith
  have b: "\<bar>x - of_int \<lceil>x\<rceil>\<bar> < 1" using cl by linarith
  from p a b False show ?thesis by (intro exI [of _ "\<lceil>x\<rceil>"]) simp
qed

lemma round_half_even_close: "\<bar>of_int (round_half_even x) - x\<bar> \<le> 1 / 2"
proof -
  define d where "d = x - of_int \<lfloor>x\<rfloor>"
  have fl: "of_int \<lfloor>x\<rfloor> \<le> x" "x < of_int \<lfloor>x\<rfloor> + 1" by linarith+
  consider "d < 1 / 2" | "1 / 2 < d" | "d = 1 / 2" by linarith
  then show ?thesis
  proof cases
    case 1
    then have r: "round_half_even x = \<lfloor>x\<rfloor>"
      by (simp add: round_half_even_def Let_def d_def)
    from 1 have "x - of_int \<lfloor>x\<rfloor> < 1 / 2" by (simp only: d_def)
    with fl show ?thesis unfolding r by linarith
  next
    case 2
    then have r: "round_half_even x = \<lfloor>x\<rfloor> + 1"
      by (simp add: round_half_even_def Let_def d_def)
    from 2 have "1 / 2 < x - of_int \<lfloor>x\<rfloor>" by (simp only: d_def)
    with fl show ?thesis unfolding r by simp
  next
    case 3
    then have r: "round_half_even x = \<lfloor>x\<rfloor> \<or> round_half_even x = \<lfloor>x\<rfloor> + 1"
      by (simp add: round_half_even_def Let_def d_def)
    from 3 have e: "x - of_int \<lfloor>x\<rfloor> = 1 / 2" by (simp only: d_def)
    from r show ?thesis
    proof
      assume a: "round_half_even x = \<lfloor>x\<rfloor>"
      from e show ?thesis unfolding a by linarith
    next
      assume a: "round_half_even x = \<lfloor>x\<rfloor> + 1"
      from e show ?thesis unfolding a by simp
    qed
  qed
qed

lemma round1_close:
  "\<exists>m::int. round1 (Fval x) = Fval (of_int m / 10) \<and> \<bar>of_int m / 10 - x\<bar> \<le> 1 / 20"
proof -
  have "\<bar>of_int (round_half_even (x * 10)) - x * 10\<bar> \<le> 1 / 2"
    by (rule round_half_even_close)
  then have "\<bar>of_int (round_half_even (x * 10)) / 10 - x\<bar> \<le> 1 / 20"
    by (simp add: abs_if split: if_splits)
  then show ?thesis by auto
qed

text \<open>On texts the order of the cells is the order of the texts.\<close>

lemma cell_key_texts: "cell_key (StrC a) \<le> cell_key (StrC b) \<longleftrightarrow> a \<le> b"
  by auto

text \<open>
  \<^verbatim>\<open>mode()[0]\<close>: a most frequent value among the non-missing ones, the first in sorted
  order among those that tie.
\<close>

lemma mode_first_spec:
  assumes "dropna xs \<noteq> []"
  shows "\<exists>c\<in>set (dropna xs). first_item (series_mode xs) = Inr c \<and>
           (\<forall>c'\<in>set (dropna xs). count_list (dropna xs) c' \<le> count_list (dropna xs) c) \<and>
           (\<forall>c'\<in>set (dropna xs). count_list (dropna xs) c' = count_list (dropna xs) c \<longrightarrow>
               cell_key c \<le> cell_key c')"
proof -
  define vs where "vs = dropna xs"
  define top where "top = fold max (map (count_list vs) vs) 0"
  define cands where "cands = remdups (filter (\<lambda>v. count_list vs v = top) vs)"
  have top: "top = Max (set (0 # map (count_list vs) vs))"
    unfolding top_def by (rule fold_max_Max)
  have ge: "count_list vs v \<le> top" if "v \<in> set vs" for v
    unfolding top using that by (intro Max_ge) auto
  from assms obtain v0 where v0: "v0 \<in> set vs" by (cases vs) (auto simp: vs_def)
  then have "0 < count_list vs v0" using count_list_0_iff [of vs v0] by auto
  with ge [OF v0] have "top \<noteq> 0" by simp
  moreover have "top \<in> set (0 # map (count_list vs) vs)"
    unfolding top by (rule Max_in) auto
  ultimately obtain v1 where v1: "v1 \<in> set vs" "count_list vs v1 = top" by auto
  then have "v1 \<in> set cands" by (simp add: cands_def)
  then have "sort_key cell_key cands \<noteq> []"
    by (metis empty_iff empty_set set_sort)
  then obtain y ys where y: "sort_key cell_key cands = y # ys"
    by (cases "sort_key cell_key cands") auto
  have "sorted (map cell_key (sort_key cell_key cands))" by (rule sorted_sort_key)
  then have least: "cell_key y \<le> cell_key z" if "z \<in> set cands" for z
  proof -
    from that have "z \<in> set (y # ys)" by (metis y set_sort)
    with \<open>sorted (map cell_key (sort_key cell_key cands))\<close> show ?thesis
      by (auto simp: y)
  qed
  have "y \<in> set cands" by (metis y list.set_intros(1) set_sort)
  then have yv: "y \<in> set vs" "count_list vs y = top" by (auto simp: cands_def)
  have mode: "series_mode xs = sort_key cell_key cands"
    by (simp add: series_mode_def Let_def cands_def top_def vs_def)
  have 1: "first_item (series_mode xs) = Inr y"
    by (simp add: mode y first_item_def)
  have 2: "count_list vs c' \<le> count_list vs y" if "c' \<in> set vs" for c'
    using ge [OF that] yv(2) by simp
  have 3: "cell_key y \<le> cell_key c'" if "c' \<in> set vs" "count_list vs c' = count_list vs y" for c'
  proof -
    from that yv(2) have "c' \<in> set cands" by (simp add: cands_def)
    then show ?thesis by (rule least)
  qed
  from yv(1) 1 2 3 show ?thesis unfolding vs_def by blast
qed

lemma no_aqi_metrics: "metrics no_aqi_df = Inl ValueError"
  by (simp add: metrics_def and_then_def getcol_def column_cells_def no_aqi_df_def
      required_columns_def cell_at_def series_mean_def series_max_def)

lemma no_category_metrics: "metrics no_category_df = Inl (KeyError ''0'')"
  by (simp add: metrics_def and_then_def getcol_def column_cells_def no_category_df_def
      required_columns_def cell_at_def series_mean_def series_max_def series_mode_def
      dropna_def first_item_def)

text \<open>
  C4, as stated, fails: on a subset with rows whose AQI Values are all missing line 90
  raises \<^verbatim>\<open>ValueError\<close>, and on one whose AQI Categories are all missing line 91 raises
  \<^verbatim>\<open>KeyError\<close>. Both files load, and both select boxes at "All" leave all their rows.
\<close>

theorem metrics_missing_counterexample:
  "load no_aqi_df = Inr no_aqi_df \<and>
   apply_filters no_aqi_df ''All'' ''All'' = Inr no_aqi_df \<and>
   length (rows no_aqi_df) = 2 \<and>
   metrics no_aqi_df = Inl ValueError \<and>
   load no_category_df = Inr no_category_df \<and>
   apply_filters no_category_df ''All'' ''All'' = Inr no_category_df \<and>
   length (rows no_category_df) = 2 \<and>
   metrics no_category_df = Inl (KeyError ''0'')"
proof -
  have "load no_aqi_df = Inr no_aqi_df"
    by (simp add: load_def and_then_def clean_column_def strip_columns_def no_aqi_df_def
        strip_def isspace_def Let_def missing_def required_columns_def cell_at_def)
  moreover have "load no_category_df = Inr no_category_df"
    by (simp add: load_def and_then_def clean_column_def strip_columns_def no_category_df_def
        strip_def isspace_def Let_def missing_def required_columns_def cell_at_def)
  moreover have "length (rows no_aqi_df) = 2" "length (rows no_category_df) = 2"
    by (simp_all add: no_aqi_df_def no_category_df_def)
  ultimately show ?thesis
    by (simp add: no_filter_identity no_aqi_metrics no_category_metrics)
qed

text \<open>Leaving the missing values out changes the count of no other value.\<close>

lemma count_list_dropna: "c \<noteq> NaN \<Longrightarrow> count_list (dropna xs) c = count_list xs c"
  by (induction xs) (auto simp: dropna_def)

lemma set_dropna: "set (dropna xs) = {c \<in> set xs. c \<noteq> NaN}"
  by (auto simp: dropna_def)

text \<open>
  C4, amended. On a subset whose AQI Value column holds no text and at least one
  number, and whose AQI Category column holds at least one value that is not missing,
  lines 88 to 91 do not raise. The count is the number of rows. The average is the
  arithmetic mean of the AQI Values that are not missing, rounded to one decimal place
  (a multiple of 1/10 at most 1/20 away from the mean). The maximum is the greatest AQI
  Value with its decimals dropped. The dominant category is not a missing value: it is
  a most frequent one among the categories that are not missing, the first in sorted
  order among those that tie.
\<close>

theorem metrics_spec:
  assumes "''AQI Value'' \<in> set (columns f)" and "''AQI Category'' \<in> set (columns f)"
    and "\<not> list_ex is_text (column_cells ''AQI Value'' f)"
    and "numbers (column_cells ''AQI Value'' f) \<noteq> []"
    and "\<exists>c\<in>set (column_cells ''AQI Category'' f). c \<noteq> NaN"
  shows "let vs = numbers (column_cells ''AQI Value'' f);
             cs = column_cells ''AQI Category'' f;
             mean = sum_list vs / of_nat (length vs)
         in \<exists>k. metrics f = Inr k \<and>
              locations k = length (rows f) \<and>
              average_aqi k = round1 (Fval mean) \<and>
              (\<exists>m::int. average_aqi k = Fval (of_int m / 10) \<and> \<bar>of_int m / 10 - mean\<bar> \<le> 1 / 20) \<and>
              max_aqi k = (if 0 \<le> Max (set vs) then \<lfloor>Max (set vs)\<rfloor> else \<lceil>Max (set vs)\<rceil>) \<and>
              \<bar>of_int (max_aqi k)\<bar> \<le> \<bar>Max (set vs)\<bar> \<and>
              \<bar>Max (set vs) - of_int (max_aqi k)\<bar> < 1 \<and>
              (\<exists>c\<in>set cs. c \<noteq> NaN \<and> dominant_category k = c \<and>
                  (\<forall>c'\<in>set cs. c' \<noteq> NaN \<longrightarrow> count_list cs c' \<le> count_list cs c) \<and>
                  (\<forall>c'\<in>set cs. c' \<noteq> NaN \<longrightarrow> count_list cs c' = count_list cs c \<longrightarrow>
                      cell_key c \<le> cell_key c'))"
proof -
  define vs where "vs = numbers (column_cells ''AQI Value'' f)"
  define cs where "cs = column_cells ''AQI Category'' f"
  define mean where "mean = sum_list vs / of_nat (length vs)"
  from assms(5) obtain c0 where c0: "c0 \<in> set cs" "c0 \<noteq> NaN"
    unfolding cs_def by blast
  then have "c0 \<in> set (dropna cs)" by (simp add: set_dropna)
  then have ne: "dropna cs \<noteq> []" by auto
  from mode_first_spec [OF ne] obtain c where c: "c \<in> set (dropna cs)"
    "first_item (series_mode cs) = Inr c"
    "\<forall>c'\<in>set (dropna cs). count_list (dropna cs) c' \<le> count_list (dropna cs) c"
    "\<forall>c'\<in>set (dropna cs). count_list (dropna cs) c' = count_list (dropna cs) c \<longrightarrow>
        cell_key c \<le> cell_key c'"
    by blast
  from c(1) have c1: "c \<in> set cs" "c \<noteq> NaN" by (simp_all add: set_dropna)
  have cnt: "count_list (dropna cs) c' = count_list cs c'" if "c' \<noteq> NaN" for c'
    using that by (rule count_list_dropna)
  have c3: "count_list cs c' \<le> count_list cs c" if "c' \<in> set cs" "c' \<noteq> NaN" for c'
  proof -
    from that have "c' \<in> set (dropna cs)" by (simp add: set_dropna)
    with c(3) have "count_list (dropna cs) c' \<le> count_list (dropna cs) c" by blast
    then show ?thesis by (simp only: cnt [OF that(2)] cnt [OF c1(2)])
  qed
  have c4: "cell_key c \<le> cell_key c'"
    if "c' \<in> set cs" "c' \<noteq> NaN" "count_list cs c' = count_list cs c" for c'
  proof -
    from that have "c' \<in> set (dropna cs)" by (simp add: set_dropna)
    moreover from that(3) have "count_list (dropna cs) c' = count_list (dropna cs) c"
      by (simp only: cnt [OF that(2)] cnt [OF c1(2)])
    ultimately show ?thesis using c(4) by blast
  qed
  from py_int_truncates [of "Max (set vs)"] obtain t where t:
    "py_int (Fval (Max (set vs))) = Inr t"
    "t = (if 0 \<le> Max (set vs) then \<lfloor>Max (set vs)\<rfloor> else \<lceil>Max (set vs)\<rceil>)"
    "\<bar>of_int t\<bar> \<le> \<bar>Max (set vs)\<bar>" "\<bar>Max (set vs) - of_int t\<bar> < 1"
    by blast
  define k where "k = \<lparr>locations = length (rows f), average_aqi = round1 (Fval mean),
      max_aqi = t, dominant_category = c\<rparr>"
  have mn: "series_mean (column_cells ''AQI Value'' f) = Inr (Fval mean)"
    unfolding mean_def vs_def using assms(3,4) by (rule series_mean_numeric)
  have mx: "series_max (column_cells ''AQI Value'' f) = Inr (Fval (Max (set vs)))"
    unfolding vs_def using assms(3,4) by (rule series_max_numeric)
  have m: "metrics f = Inr k"
    using assms(1,2)
    by (simp add: metrics_def and_then_def getcol_def mn mx t(1) c(2) [unfolded cs_def] k_def
        del: py_int.simps)
  from round1_close [of mean]
  have r: "\<exists>m::int. average_aqi k = Fval (of_int m / 10) \<and> \<bar>of_int m / 10 - mean\<bar> \<le> 1 / 20"
    by (simp add: k_def)
  have "\<exists>k. metrics f = Inr k \<and>
      locations k = length (rows f) \<and>
      average_aqi k = round1 (Fval mean) \<and>
      (\<exists>m::int. average_aqi k = Fval (of_int m / 10) \<and> \<bar>of_int m / 10 - mean\<bar> \<le> 1 / 20) \<and>
      max_aqi k = (if 0 \<le> Max (set vs) then \<lfloor>Max (set vs)\<rfloor> else \<lceil>Max (set vs)\<rceil>) \<and>
      \<bar>of_int (max_aqi k)\<bar> \<le> \<bar>Max (set vs)\<bar> \<and>
      \<bar>Max (set vs) - of_int (max_aqi k)\<bar> < 1 \<and>
      (\<exists>c\<in>set cs. c \<noteq> NaN \<and> dominant_category k = c \<and>
          (\<forall>c'\<in>set cs. c' \<noteq> NaN \<longrightarrow> count_list cs c' \<le> count_list cs c) \<and>
          (\<forall>c'\<in>set cs. c' \<noteq> NaN \<longrightarrow> count_list cs c' = count_list cs c \<longrightarrow>
              cell_key c \<le> cell_key c'))"
  proof (intro exI [of _ k] conjI)
    show "metrics f = Inr k" by (rule m)
    show "locations k = length (rows f)" by (simp add: k_def)
    show "average_aqi k = round1 (Fval mean)" by (simp add: k_def)
    show "\<exists>m::int. average_aqi k = Fval (of_int m / 10) \<and> \<bar>of_int m / 10 - mean\<bar> \<le> 1 / 20"
      by (rule r)
    show "max_aqi k = (if 0 \<le> Max (set vs) then \<lfloor>Max (set vs)\<rfloor> else \<lceil>Max (set vs)\<rceil>)"
      using t(2) by (simp add: k_def)
    show "\<bar>of_int (max_aqi k)\<bar> \<le> \<bar>Max (set vs)\<bar>" using t(3) by (simp add: k_def)
    show "\<bar>Max (set vs) - of_int (max_aqi k)\<bar> < 1" using t(4) by (simp add: k_def)
    show "\<exists>c\<in>set cs. c \<noteq> NaN \<and> dominant_category k = c \<and>
          (\<forall>c'\<in>set cs. c' \<noteq> NaN \<longrightarrow> count_list cs c' \<le> count_list cs c) \<and>
          (\<forall>c'\<in>set cs. c' \<noteq> NaN \<longrightarrow> count_list cs c' = count_list cs c \<longrightarrow>
              cell_key c \<le> cell_key c')"
    proof (intro bexI [of _ c] conjI ballI impI)
      show "c \<noteq> NaN" by (rule c1(2))
      show "dominant_category k = c" by (simp add: k_def)
      show "count_list cs c' \<le> count_list cs c" if "c' \<in> set cs" "c' \<noteq> NaN" for c'
        using that by (rule c3)
      show "cell_key c \<le> cell_key c'"
        if "c' \<in> set cs" "c' \<noteq> NaN" "count_list cs c' = count_list cs c" for c'
        using that by (rule c4)
      show "c \<in> set cs" by (rule c1(1))
    qed
  qed
  then show ?thesis
    unfolding Let_def vs_def cs_def mean_def .
qed

lemma subset_X_metrics:
  "metrics (example_df\<lparr>rows := [row_A, row_B]\<rparr>) =
     Inr \<lparr>locations = 2, average_aqi = Fval 65, max_aqi = 80, dominant_category = StrC ''Good''\<rparr>"
  by (simp add: metrics_def and_then_def getcol_def column_cells_def example_df_def
      required_columns_def cell_at_def row_A_def row_B_def series_mean_def series_max_def
      series_mode_def dropna_def first_item_def round_half_even_def Let_def)

lemma decimal_metrics:
  "metrics decimal_df =
     Inr \<lparr>locations = 4, average_aqi = Fval (327 / 5), max_aqi = 80,
          dominant_category = StrC ''Good''\<rparr>"
  by code_simp

text \<open>
  The example of the specification: country X, city "All" leaves the rows A and B,
  with count 2, average 65.0 and maximum 80; Good and Moderate tie, and Good is shown.
  With the AQI Values 50.25, missing, 80.5 and missing the count is 4, the average of
  the two numbers, 65.375, is shown as 65.4 and the maximum, 80.5, as 80; the category
  is missing twice, Moderate and Good occur once each, and Good is shown.
\<close>

theorem metrics_spec_witness:
  "''AQI Value'' \<in> set (columns (example_df\<lparr>rows := [row_A, row_B]\<rparr>)) \<and>
   ''AQI Category'' \<in> set (columns (example_df\<lparr>rows := [row_A, row_B]\<rparr>)) \<and>
   \<not> list_ex is_text (column_cells ''AQI Value'' (example_df\<lparr>rows := [row_A, row_B]\<rparr>)) \<and>
   numbers (column_cells ''AQI Value'' (example_df\<lparr>rows := [row_A, row_B]\<rparr>)) = [50, 80] \<and>
   column_cells ''AQI Category'' (example_df\<lparr>rows := [row_A, row_B]\<rparr>)
     = [StrC ''Good'', StrC ''Moderate''] \<and>
   apply_filters example_df ''X'' ''All'' = Inr (example_df\<lparr>rows := [row_A, row_B]\<rparr>) \<and>
   (\<exists>k. metrics (example_df\<lparr>rows := [row_A, row_B]\<rparr>) = Inr k \<and>
        locations k = 2 \<and> average_aqi k = Fval 65 \<and> max_aqi k = 80 \<and>
        dominant_category k = StrC ''Good'') \<and>
   ''AQI Value'' \<in> set (columns decimal_df) \<and> ''AQI Category'' \<in> set (columns decimal_df) \<and>
   \<not> list_ex is_text (column_cells ''AQI Value'' decimal_df) \<and>
   numbers (column_cells ''AQI Value'' decimal_df) = [201 / 4, 161 / 2] \<and>
   column_cells ''AQI Category'' decimal_df = [StrC ''Moderate'', NaN, StrC ''Good'', NaN] \<and>
   (\<exists>k. metrics decimal_df = Inr k \<and>
        locations k = 4 \<and> average_aqi k = Fval (327 / 5) \<and> max_aqi k = 80 \<and>
        dominant_category k = StrC ''Good'')"
proof -
  let ?w = "example_df\<lparr>rows := [row_A, row_B]\<rparr>"
  have 1: "''AQI Value'' \<in> set (columns ?w)" "''AQI Category'' \<in> set (columns ?w)"
    by (simp_all add: example_df_def required_columns_def)
  have 2: "column_cells ''AQI Value'' ?w = [IntC 50, IntC 80]"
    by (simp add: column_cells_def example_df_def required_columns_def cell_at_def
        row_A_def row_B_def)
  have 3: "column_cells ''AQI Category'' ?w = [StrC ''Good'', StrC ''Moderate'']"
    by (simp add: column_cells_def example_df_def required_columns_def cell_at_def
        row_A_def row_B_def)
  have 4: "\<not> list_ex is_text (column_cells ''AQI Value'' ?w)"
    "numbers (column_cells ''AQI Value'' ?w) \<noteq> []"
    "\<exists>c\<in>set (column_cells ''AQI Category'' ?w). c \<noteq> NaN"
    by (simp_all add: 2 3)
  from metrics_spec [OF 1 4] obtain k where k: "metrics ?w = Inr k"
    "locations k = length (rows ?w)"
    unfolding Let_def by blast
  from k(1) have kv: "k = \<lparr>locations = 2, average_aqi = Fval 65, max_aqi = 80,
      dominant_category = StrC ''Good''\<rparr>"
    by (simp add: subset_X_metrics)
  have a: "\<exists>k. metrics ?w = Inr k \<and> locations k = 2 \<and> average_aqi k = Fval 65 \<and>
      max_aqi k = 80 \<and> dominant_category k = StrC ''Good''"
    using k(1) kv by simp
  have 5: "''AQI Value'' \<in> set (columns decimal_df)" "''AQI Category'' \<in> set (columns decimal_df)"
    by (simp_all add: decimal_df_def required_columns_def)
  have 6: "column_cells ''AQI Value'' decimal_df
      = [FloatC (201 / 4), NaN, FloatC (161 / 2), NaN]"
    by (simp add: column_cells_def decimal_df_def required_columns_def cell_at_def)
  have 7: "column_cells ''AQI Category'' decimal_df
      = [StrC ''Moderate'', NaN, StrC ''Good'', NaN]"
    by (simp add: column_cells_def decimal_df_def required_columns_def cell_at_def)
  have 8: "\<not> list_ex is_text (column_cells ''AQI Value'' decimal_df)"
    "numbers (column_cells ''AQI Value'' decimal_df) \<noteq> []"
    "\<exists>c\<in>set (column_cells ''AQI Category'' decimal_df). c \<noteq> NaN"
    by (simp_all add: 6 7)
  from metrics_spec [OF 5 8] obtain j where j: "metrics decimal_df = Inr j"
    "locations j = length (rows decimal_df)"
    unfolding Let_def by blast
  from j(1) have jv: "j = \<lparr>locations = 4, average_aqi = Fval (327 / 5), max_aqi = 80,
      dominant_category = StrC ''Good''\<rparr>"
    by (simp add: decimal_metrics)
  have b: "\<exists>k. metrics decimal_df = Inr k \<and> locations k = 4 \<and>
      average_aqi k = Fval (327 / 5) \<and> max_aqi k = 80 \<and> dominant_category k = StrC ''Good''"
    using j(1) jv by simp
  show ?thesis
    using 1 4(1) 5 8(1) a b example_apply_X
    by (simp add: 2 3 6 7)
qed

section \<open>Download and second upload\<close>

subsection \<open>Integers are read back\<close>














subsection \<open>Plain texts are read back\<close>








subsection \<open>Frames of plain cells are read back\<close>
















end
